theory Spec2Isabelle
  imports Main "HOL-Library.AList" "HOL-Library.Sublist"
begin

section \<open>Secrets management of the bodywork command line (bodywork/cli/secrets.py)\<close>

subsection \<open>Strings, dictionaries and exceptions\<close>

text \<open>
  A Python \<open>str\<close> is a \<open>string\<close>. A Python \<open>dict\<close> keeps its keys in the order of their
  first insertion and a later assignment to a key replaces the value in place, which is
  what \<open>AList.update\<close> does on an association list.
\<close>

type_synonym dict = "(string \<times> string) list"

datatype error = ValueError string | KeyError string | StoreError string

text \<open>\<open>str.find\<close> for a one-character needle: the index of the first occurrence, or -1.\<close>

fun find_from :: "char \<Rightarrow> string \<Rightarrow> int \<Rightarrow> int" where
  "find_from c [] i = - 1"
| "find_from c (x # xs) i = (if x = c then i else find_from c xs (i + 1))"

definition str_find :: "string \<Rightarrow> char \<Rightarrow> int" where
  "str_find s c = find_from c s 0"

text \<open>\<open>str.replace(old, "")\<close> for a one-character \<open>old\<close>: every occurrence is removed.\<close>

definition str_remove :: "char \<Rightarrow> string \<Rightarrow> string" where
  "str_remove c s = filter (\<lambda>x. x \<noteq> c) s"

text \<open>\<open>d[k]\<close> on a dictionary raises \<open>KeyError\<close> for a key that is not there.\<close>

definition dict_getitem :: "(string \<times> 'v) list \<Rightarrow> string \<Rightarrow> error + 'v" where
  "dict_getitem d k = (case map_of d k of None \<Rightarrow> Inl (KeyError k) | Some v \<Rightarrow> Inr v)"

subsection \<open>Parsing KEY=VALUE strings\<close>

definition error_msg :: string where
  "error_msg = ''secret key-value pair not in KEY=VALUE format''"

definition parse_secret_key_value_pair :: "string \<Rightarrow> error + (string \<times> string)" where
  "parse_secret_key_value_pair kv_string =
     (let equals_sign = str_find kv_string (CHR ''='') in
      if equals_sign = - 1 then Inl (ValueError error_msg)
      else let key = take (nat equals_sign) kv_string in
        if length key = 0 then Inl (ValueError error_msg)
        else let value = drop (nat (equals_sign + 1)) kv_string in
          if length value = 0 then Inl (ValueError error_msg)
          else Inr (key, value))"

text \<open>
  \<open>dict(generator)\<close> pulls one pair at a time from the generator and stores it; the first
  exception raised by the generator ends the construction.
\<close>

fun dict_of_pairs :: "string list \<Rightarrow> dict \<Rightarrow> error + dict" where
  "dict_of_pairs [] d = Inr d"
| "dict_of_pairs (key_value_string # rest) d =
     (case parse_secret_key_value_pair key_value_string of
        Inl e \<Rightarrow> Inl e
      | Inr (k, v) \<Rightarrow> dict_of_pairs rest (AList.update k v d))"

definition parse_cli_secrets_strings :: "string list \<Rightarrow> error + dict" where
  "parse_cli_secrets_strings key_value_strings = dict_of_pairs key_value_strings []"

text \<open>
  The two halves of a raw string as the specification words them: everything before the
  first \<open>=\<close> and everything after it. They are compared with the slices the code takes.
\<close>

definition before_first_eq :: "string \<Rightarrow> string" where
  "before_first_eq raw = takeWhile (\<lambda>x. x \<noteq> CHR ''='') raw"

definition after_first_eq :: "string \<Rightarrow> string" where
  "after_first_eq raw = tl (dropWhile (\<lambda>x. x \<noteq> CHR ''='') raw)"

text \<open>
  A raw string is well formed when the parser returns a pair for it. \<open>split_pair\<close> is that
  pair in the specification's words, \<open>insert_pair\<close> the assignment \<open>d[key] = value\<close>, and
  \<open>first_malformed\<close> the first entry of a sequence that the parser refuses.
\<close>

definition well_formed :: "string \<Rightarrow> bool" where
  "well_formed raw = (\<not> isl (parse_secret_key_value_pair raw))"

definition split_pair :: "string \<Rightarrow> string \<times> string" where
  "split_pair raw = (before_first_eq raw, after_first_eq raw)"

definition insert_pair :: "dict \<Rightarrow> string \<times> string \<Rightarrow> dict" where
  "insert_pair d p = AList.update (fst p) (snd p) d"

definition first_malformed :: "string list \<Rightarrow> string" where
  "first_malformed raws = hd (dropWhile well_formed raws)"

subsection \<open>The cluster client and the terminal\<close>

text \<open>
  The functions of \<open>bodywork.k8s\<close> are called, not defined, in this module. They are a
  parameter of the model: a record of functions over a store of any type, each of which
  may raise. The existence checks and the listing read the store, the other three
  change it. Every call is logged in \<open>calls\<close>, and every line given to \<open>print\<close> in \<open>out\<close>.
\<close>

record secret =
  name :: string
  group :: string
  data :: dict

record 's k8s =
  k8s_namespace_exists :: "'s \<Rightarrow> string \<Rightarrow> error + bool"
  k8s_secret_exists :: "'s \<Rightarrow> string \<Rightarrow> string \<Rightarrow> error + bool"
  k8s_create_secret :: "'s \<Rightarrow> string \<Rightarrow> string \<Rightarrow> string \<Rightarrow> dict \<Rightarrow> error + 's"
  k8s_update_secret :: "'s \<Rightarrow> string \<Rightarrow> string \<Rightarrow> dict \<Rightarrow> error + 's"
  k8s_delete_secret :: "'s \<Rightarrow> string \<Rightarrow> string \<Rightarrow> error + 's"
  k8s_list_secrets :: "'s \<Rightarrow> string \<Rightarrow> string option \<Rightarrow> error + (string \<times> secret) list"

datatype call =
    NamespaceExists string
  | SecretExists string string
  | CreateSecret string string string dict
  | UpdateSecret string string dict
  | DeleteSecret string string
  | ListSecrets string "string option"

record 's world =
  store :: 's
  calls :: "call list"
  out :: "string list"

text \<open>How a call of one of the functions below ends: it returns, or an exception leaves it.\<close>

datatype 'w outcome = Returned 'w | Raised error 'w

fun world_of :: "'w outcome \<Rightarrow> 'w" where
  "world_of (Returned w) = w"
| "world_of (Raised e w) = w"

fun returned :: "'w outcome \<Rightarrow> bool" where
  "returned (Returned w) = True"
| "returned (Raised e w) = False"

definition print :: "string \<Rightarrow> 's world \<Rightarrow> 's world" where
  "print msg w = w\<lparr>out := out w @ [msg]\<rparr>"

definition logged :: "call \<Rightarrow> 's world \<Rightarrow> 's world" where
  "logged c w = w\<lparr>calls := calls w @ [c]\<rparr>"

definition call_namespace_exists :: "'s k8s \<Rightarrow> string \<Rightarrow> 's world \<Rightarrow> (error + bool) \<times> 's world" where
  "call_namespace_exists k namespace w =
     (k8s_namespace_exists k (store w) namespace, logged (NamespaceExists namespace) w)"

definition call_secret_exists ::
  "'s k8s \<Rightarrow> string \<Rightarrow> string \<Rightarrow> 's world \<Rightarrow> (error + bool) \<times> 's world" where
  "call_secret_exists k namespace ident w =
     (k8s_secret_exists k (store w) namespace ident, logged (SecretExists namespace ident) w)"

definition call_list_secrets ::
  "'s k8s \<Rightarrow> string \<Rightarrow> string option \<Rightarrow> 's world \<Rightarrow> (error + (string \<times> secret) list) \<times> 's world" where
  "call_list_secrets k namespace grp w =
     (k8s_list_secrets k (store w) namespace grp, logged (ListSecrets namespace grp) w)"

definition stored :: "error + 's \<Rightarrow> 's world \<Rightarrow> (error + unit) \<times> 's world" where
  "stored r w = (case r of Inl e \<Rightarrow> (Inl e, w) | Inr s \<Rightarrow> (Inr (), w\<lparr>store := s\<rparr>))"

definition call_create_secret ::
  "'s k8s \<Rightarrow> string \<Rightarrow> string \<Rightarrow> string \<Rightarrow> dict \<Rightarrow> 's world \<Rightarrow> (error + unit) \<times> 's world" where
  "call_create_secret k namespace ident grp kv w =
     stored (k8s_create_secret k (store w) namespace ident grp kv)
       (logged (CreateSecret namespace ident grp kv) w)"

definition call_update_secret ::
  "'s k8s \<Rightarrow> string \<Rightarrow> string \<Rightarrow> dict \<Rightarrow> 's world \<Rightarrow> (error + unit) \<times> 's world" where
  "call_update_secret k namespace ident kv w =
     stored (k8s_update_secret k (store w) namespace ident kv)
       (logged (UpdateSecret namespace ident kv) w)"

definition call_delete_secret ::
  "'s k8s \<Rightarrow> string \<Rightarrow> string \<Rightarrow> 's world \<Rightarrow> (error + unit) \<times> 's world" where
  "call_delete_secret k namespace ident w =
     stored (k8s_delete_secret k (store w) namespace ident)
       (logged (DeleteSecret namespace ident) w)"

fun mutating :: "call \<Rightarrow> bool" where
  "mutating (CreateSecret n i g d) = True"
| "mutating (UpdateSecret n i d) = True"
| "mutating (DeleteSecret n i) = True"
| "mutating c = False"

subsection \<open>The operations on secrets\<close>

definition create_complete_secret_name :: "string \<Rightarrow> string \<Rightarrow> string" where
  "create_complete_secret_name grp nm = grp @ ''-'' @ nm"

definition create_secret ::
  "'s k8s \<Rightarrow> string \<Rightarrow> string \<Rightarrow> string \<Rightarrow> dict \<Rightarrow> 's world \<Rightarrow> 's world outcome" where
  "create_secret k namespace grp secret_name keys_and_values w =
     (case call_namespace_exists k namespace w of
        (Inl e, w1) \<Rightarrow> Raised e w1
      | (Inr found, w1) \<Rightarrow>
          if \<not> found then
            Returned (print (''namespace='' @ namespace @ '' could not be found on k8s cluster'') w1)
          else
            (case call_create_secret k namespace
                    (create_complete_secret_name grp secret_name) grp keys_and_values w1 of
               (Inl e, w2) \<Rightarrow> Raised e w2
             | (Inr u, w2) \<Rightarrow>
                 Returned (print (''secret='' @ secret_name @ '' created in group='' @ grp) w2)))"

definition update_secret ::
  "'s k8s \<Rightarrow> string \<Rightarrow> string \<Rightarrow> string \<Rightarrow> dict \<Rightarrow> 's world \<Rightarrow> 's world outcome" where
  "update_secret k namespace grp secret_name keys_and_values w =
     (case call_namespace_exists k namespace w of
        (Inl e, w1) \<Rightarrow> Raised e w1
      | (Inr found, w1) \<Rightarrow>
          if \<not> found then
            Returned (print (''namespace='' @ namespace @ '' could not be found on k8s cluster'') w1)
          else
            (case call_secret_exists k namespace
                    (create_complete_secret_name grp secret_name) w1 of
               (Inl e, w2) \<Rightarrow> Raised e w2
             | (Inr present, w2) \<Rightarrow>
                 if \<not> present then
                   Returned (print (''secret='' @ secret_name
                                     @ '' could not be found in group='' @ grp) w2)
                 else
                   (case call_update_secret k namespace
                           (create_complete_secret_name grp secret_name) keys_and_values w2 of
                      (Inl e, w3) \<Rightarrow> Raised e w3
                    | (Inr u, w3) \<Rightarrow>
                        Returned (print (''secret='' @ secret_name @ '' in group='' @ grp
                                          @ '' updated'') w3))))"

definition delete_secret ::
  "'s k8s \<Rightarrow> string \<Rightarrow> string \<Rightarrow> string \<Rightarrow> 's world \<Rightarrow> 's world outcome" where
  "delete_secret k namespace grp secret_name w =
     (case call_namespace_exists k namespace w of
        (Inl e, w1) \<Rightarrow> Raised e w1
      | (Inr found, w1) \<Rightarrow>
          if \<not> found then
            Returned (print (''namespace='' @ namespace @ '' could not be found on k8s cluster'') w1)
          else
            (case call_secret_exists k namespace
                    (create_complete_secret_name grp secret_name) w1 of
               (Inl e, w2) \<Rightarrow> Raised e w2
             | (Inr present, w2) \<Rightarrow>
                 if \<not> present then
                   Returned (print (''secret='' @ secret_name
                                     @ '' could not be found in group='' @ grp) w2)
                 else
                   (case call_delete_secret k namespace
                           (create_complete_secret_name grp secret_name) w2 of
                      (Inl e, w3) \<Rightarrow> Raised e w3
                    | (Inr u, w3) \<Rightarrow>
                        Returned (print (''secret='' @ secret_name @ '' in group='' @ grp
                                          @ '' deleted from namespace='' @ namespace) w3))))"

text \<open>
  In \<open>display_secrets\<close> the group and the secret name are optional. The test
  \<open>secret_name and group is None\<close> takes the name for true when it is neither \<open>None\<close> nor
  the empty string; an f-string writes \<open>None\<close> as the four letters.
\<close>

definition newline :: char where
  "newline = CHR 0x0A"

fun truthy :: "string option \<Rightarrow> bool" where
  "truthy None = False"
| "truthy (Some s) = (s \<noteq> [])"

fun fstr :: "string option \<Rightarrow> string" where
  "fstr None = ''None''"
| "fstr (Some s) = s"

definition pair_line :: "string \<Rightarrow> string \<Rightarrow> string" where
  "pair_line key val = str_remove newline (''-> '' @ key @ ''='' @ val)"

definition secret_header :: "string \<Rightarrow> string" where
  "secret_header key = newline # ''-- '' @ key @ '':''"

fun print_data :: "dict \<Rightarrow> 's world \<Rightarrow> 's world" where
  "print_data [] w = w"
| "print_data ((key, val) # rest) w = print_data rest (print (pair_line key val) w)"

fun print_secrets :: "(string \<times> secret) list \<Rightarrow> 's world \<Rightarrow> 's world" where
  "print_secrets [] w = w"
| "print_secrets ((key, val) # rest) w =
     print_secrets rest (print_data (data val) (print (secret_header key) w))"

definition display_secrets ::
  "'s k8s \<Rightarrow> string \<Rightarrow> string option \<Rightarrow> string option \<Rightarrow> 's world \<Rightarrow> 's world outcome" where
  "display_secrets k namespace grp secret_name w =
     (case call_namespace_exists k namespace w of
        (Inl e, w1) \<Rightarrow> Raised e w1
      | (Inr found, w1) \<Rightarrow>
          if \<not> found then
            Returned (print (''namespace='' @ namespace @ '' could not be found on k8s cluster'') w1)
          else if truthy secret_name \<and> grp = None then
            Returned (print ''please specify which secrets group the secret belongs to.'' w1)
          else
            (case call_list_secrets k namespace grp w1 of
               (Inl e, w2) \<Rightarrow> Raised e w2
             | (Inr secrets, w2) \<Rightarrow>
                 (case secret_name of
                    Some sn \<Rightarrow>
                      (let w3 = print (secret_header sn) w2 in
                       case dict_getitem secrets (create_complete_secret_name (fstr grp) sn) of
                         Inl (KeyError x) \<Rightarrow>
                           Returned (print (''cannot find secret='' @ sn
                                             @ '' in namespace='' @ namespace) w3)
                       | Inl e \<Rightarrow> Raised e w3
                       | Inr s \<Rightarrow> Returned (print_data (data s) w3))
                  | None \<Rightarrow> Returned (print_secrets secrets w2))))"

subsection \<open>Messages, and what a quiet return is\<close>

text \<open>
  The texts that the operations print, named for the statements below, and the lines that
  \<open>display_secrets\<close> prints for the data of a secret. A quiet return is a normal return
  that has printed the given lines and has neither changed the store nor made a mutating
  call.
\<close>

definition ns_missing :: "string \<Rightarrow> string" where
  "ns_missing namespace = ''namespace='' @ namespace @ '' could not be found on k8s cluster''"

definition secret_missing :: "string \<Rightarrow> string \<Rightarrow> string" where
  "secret_missing secret_name grp = ''secret='' @ secret_name @ '' could not be found in group='' @ grp"

definition secret_created :: "string \<Rightarrow> string \<Rightarrow> string" where
  "secret_created secret_name grp = ''secret='' @ secret_name @ '' created in group='' @ grp"

definition guidance :: string where
  "guidance = ''please specify which secrets group the secret belongs to.''"

definition cannot_find :: "string \<Rightarrow> string \<Rightarrow> string" where
  "cannot_find secret_name namespace = ''cannot find secret='' @ secret_name @ '' in namespace='' @ namespace"

definition quiet_return :: "'s world \<Rightarrow> string list \<Rightarrow> 's world outcome \<Rightarrow> bool" where
  "quiet_return w msgs r =
     (returned r \<and> out (world_of r) = out w @ msgs \<and> store (world_of r) = store w
      \<and> filter mutating (calls (world_of r)) = filter mutating (calls w))"

definition no_store_query :: "'s world \<Rightarrow> 's world outcome \<Rightarrow> bool" where
  "no_store_query w r = (calls (world_of r) = calls w)"

definition data_lines :: "dict \<Rightarrow> string list" where
  "data_lines d = map (\<lambda>p. pair_line (fst p) (snd p)) d"

definition secret_lines :: "string \<times> secret \<Rightarrow> string list" where
  "secret_lines e = secret_header (fst e) # data_lines (data (snd e))"

subsection \<open>A secret store after the specification\<close>

text \<open>
  Modelled from the spec: the secret store behind \<open>bodywork.k8s\<close>, whose code is not part
  of this module. The specification gives its interface (section 6) and the record it
  keeps for a secret (section 3): the composed identifier as \<open>name\<close>, the group label,
  and the payload as \<open>data\<close>. \<open>listSecrets\<close> returns the records of a namespace by
  identifier, optionally only those of one group; \<open>createSecret\<close> fails with a store-level
  error when the creation is rejected, and which creations a store rejects is left open
  (the parameter \<open>rejected\<close>).
\<close>

text \<open>
  Modelled from the spec: the state of the store, its namespaces and, by namespace and
  identifier, the record of every secret.
\<close>

record cluster =
  namespaces :: "string list"
  secrets :: "((string \<times> string) \<times> secret) list"

text \<open>
  Modelled from the spec: \<open>namespaceExists\<close> and \<open>secretExists\<close>, queries that answer from the
  state.
\<close>

definition cluster_namespace_exists :: "cluster \<Rightarrow> string \<Rightarrow> error + bool" where
  "cluster_namespace_exists c namespace = Inr (namespace \<in> set (namespaces c))"

definition cluster_secret_exists :: "cluster \<Rightarrow> string \<Rightarrow> string \<Rightarrow> error + bool" where
  "cluster_secret_exists c namespace ident =
     Inr (map_of (secrets c) (namespace, ident) \<noteq> None)"

text \<open>
  Modelled from the spec: \<open>listSecrets\<close>, the records of one namespace by identifier, all of
  them or those whose group is the given one.
\<close>

definition in_listing :: "string \<Rightarrow> string option \<Rightarrow> (string \<times> string) \<times> secret \<Rightarrow> bool" where
  "in_listing namespace grp e =
     (fst (fst e) = namespace \<and> (case grp of None \<Rightarrow> True | Some g \<Rightarrow> group (snd e) = g))"

definition cluster_list_secrets ::
  "cluster \<Rightarrow> string \<Rightarrow> string option \<Rightarrow> error + (string \<times> secret) list" where
  "cluster_list_secrets c namespace grp =
     Inr (map (\<lambda>e. (snd (fst e), snd e)) (filter (in_listing namespace grp) (secrets c)))"

text \<open>
  Modelled from the spec: \<open>createSecret\<close>, which fails with a store-level error when the
  creation is rejected and otherwise stores the record under the identifier.
\<close>

definition cluster_create_secret ::
  "(cluster \<Rightarrow> string \<Rightarrow> string \<Rightarrow> bool) \<Rightarrow> cluster \<Rightarrow> string \<Rightarrow> string \<Rightarrow> string \<Rightarrow> dict
     \<Rightarrow> error + cluster" where
  "cluster_create_secret rejected c namespace ident grp kv =
     (if rejected c namespace ident then Inl (StoreError ''creation rejected'')
      else Inr (c\<lparr>secrets := AList.update (namespace, ident)
                   \<lparr>name = ident, group = grp, data = kv\<rparr> (secrets c)\<rparr>))"

text \<open>
  Modelled from the spec: \<open>updateSecret\<close> and \<open>deleteSecret\<close>, which replace the payload of a
  stored record and remove it. No statement below depends on them; they complete the
  interface.
\<close>

definition cluster_update_secret ::
  "cluster \<Rightarrow> string \<Rightarrow> string \<Rightarrow> dict \<Rightarrow> error + cluster" where
  "cluster_update_secret c namespace ident kv =
     (case map_of (secrets c) (namespace, ident) of
        None \<Rightarrow> Inl (StoreError ''no such secret'')
      | Some s \<Rightarrow> Inr (c\<lparr>secrets := AList.update (namespace, ident) (s\<lparr>data := kv\<rparr>) (secrets c)\<rparr>))"

definition cluster_delete_secret :: "cluster \<Rightarrow> string \<Rightarrow> string \<Rightarrow> error + cluster" where
  "cluster_delete_secret c namespace ident =
     (case map_of (secrets c) (namespace, ident) of
        None \<Rightarrow> Inl (StoreError ''no such secret'')
      | Some s \<Rightarrow> Inr (c\<lparr>secrets := AList.delete (namespace, ident) (secrets c)\<rparr>))"

text \<open>
  Modelled from the spec: the store as the collaborator that the operations are given.
\<close>

definition cluster_k8s :: "(cluster \<Rightarrow> string \<Rightarrow> string \<Rightarrow> bool) \<Rightarrow> cluster k8s" where
  "cluster_k8s rejected =
     \<lparr>k8s_namespace_exists = cluster_namespace_exists,
      k8s_secret_exists = cluster_secret_exists,
      k8s_create_secret = cluster_create_secret rejected,
      k8s_update_secret = cluster_update_secret,
      k8s_delete_secret = cluster_delete_secret,
      k8s_list_secrets = cluster_list_secrets\<rparr>"

text \<open>A text surfaces in the output when some printed line contains it.\<close>

definition surfaces :: "string \<Rightarrow> string list \<Rightarrow> bool" where
  "surfaces txt output = list_ex (sublist txt) output"

text \<open>Concrete data for the examples: one namespace that holds one secret of group \<open>dev\<close>.\<close>

definition never :: "cluster \<Rightarrow> string \<Rightarrow> string \<Rightarrow> bool" where
  "never c namespace ident = False"

definition demo_cluster :: cluster where
  "demo_cluster =
     \<lparr>namespaces = [''prod''],
      secrets = [((''prod'', ''dev-db''),
                  \<lparr>name = ''dev-db'', group = ''dev'',
                   data = [(''USER'', ''alice''), (''KEY'', [CHR ''a'', newline, CHR ''b''])]\<rparr>)]\<rparr>"

definition demo_world :: "cluster world" where
  "demo_world = \<lparr>store = demo_cluster, calls = [], out = []\<rparr>"

text \<open>
  A store that rejects every creation, and a namespace whose one secret was created with
  the group \<open>None\<close> and the empty name, so that its identifier is \<open>None-\<close>.
\<close>

definition always :: "cluster \<Rightarrow> string \<Rightarrow> string \<Rightarrow> bool" where
  "always c namespace ident = True"

definition none_cluster :: cluster where
  "none_cluster =
     \<lparr>namespaces = [''prod''],
      secrets = [((''prod'', ''None-''),
                  \<lparr>name = ''None-'', group = ''None'', data = [(''PW'', ''hunter2'')]\<rparr>)]\<rparr>"

definition none_world :: "cluster world" where
  "none_world = \<lparr>store = none_cluster, calls = [], out = []\<rparr>"

section \<open>Properties of the parser\<close>

subsection \<open>What the slices of the code are\<close>

lemma find_from_absent: "c \<notin> set s \<Longrightarrow> find_from c s i = - 1"
  by (induction s arbitrary: i) auto

lemma find_from_present:
  "c \<in> set s \<Longrightarrow> find_from c s i = i + int (length (takeWhile (\<lambda>x. x \<noteq> c) s))"
  by (induction s arbitrary: i) auto

lemma str_find_absent: "c \<notin> set s \<Longrightarrow> str_find s c = - 1"
  by (simp add: str_find_def find_from_absent)

lemma str_find_present:
  "c \<in> set s \<Longrightarrow> str_find s c = int (length (takeWhile (\<lambda>x. x \<noteq> c) s))"
  by (simp add: str_find_def find_from_present)

lemma take_upto_first: "take (length (takeWhile P s)) s = takeWhile P s"
  by (induction s) auto

lemma drop_past_first: "drop (Suc (length (takeWhile P s))) s = tl (dropWhile P s)"
  by (induction s) auto

lemma parse_pair_slices:
  "parse_secret_key_value_pair raw =
     (if CHR ''='' \<in> set raw \<and> before_first_eq raw \<noteq> [] \<and> after_first_eq raw \<noteq> []
      then Inr (before_first_eq raw, after_first_eq raw)
      else Inl (ValueError error_msg))"
proof (cases "CHR ''='' \<in> set raw")
  case False
  then show ?thesis
    by (simp add: parse_secret_key_value_pair_def str_find_absent)
next
  case True
  have n: "nat (int (length (takeWhile (\<lambda>x. x \<noteq> CHR ''='') raw)) + 1)
     = Suc (length (takeWhile (\<lambda>x. x \<noteq> CHR ''='') raw))" by simp
  from True show ?thesis
    unfolding parse_secret_key_value_pair_def before_first_eq_def after_first_eq_def
    by (simp add: str_find_present Let_def take_upto_first n drop_past_first del: of_nat_add)
qed

lemma halves_rejoin:
  "CHR ''='' \<in> set raw \<Longrightarrow> before_first_eq raw @ ''='' @ after_first_eq raw = raw"
  unfolding before_first_eq_def after_first_eq_def
  by (induction raw) auto

lemma before_first_eq_clean: "CHR ''='' \<notin> set (before_first_eq raw)"
  unfolding before_first_eq_def by (induction raw) auto

subsection \<open>One pair\<close>

text \<open>
  C5. \<open>_parse_secret_key_value_pair\<close> raises its \<open>ValueError\<close> exactly when the raw string
  has no \<open>=\<close>, or nothing before the first \<open>=\<close>, or nothing after it. In every other case
  it returns the pair of what is before the first \<open>=\<close> and what is after it, and so
  \<open>key=val=ue\<close> parses to \<open>(key, val=ue)\<close>.
\<close>

theorem parse_pair_contract:
  "(parse_secret_key_value_pair raw = Inl (ValueError error_msg)
      \<longleftrightarrow> CHR ''='' \<notin> set raw \<or> before_first_eq raw = [] \<or> after_first_eq raw = [])
   \<and> (\<not> (CHR ''='' \<notin> set raw \<or> before_first_eq raw = [] \<or> after_first_eq raw = [])
      \<longrightarrow> parse_secret_key_value_pair raw = Inr (before_first_eq raw, after_first_eq raw))
   \<and> parse_secret_key_value_pair ''key=val=ue'' = Inr (''key'', ''val=ue'')"
proof -
  have ex: "parse_secret_key_value_pair ''key=val=ue'' = Inr (''key'', ''val=ue'')"
    by (simp add: parse_pair_slices before_first_eq_def after_first_eq_def)
  show ?thesis
    using ex by (auto simp: parse_pair_slices)
qed

theorem parse_pair_contract_witness:
  "\<not> (CHR ''='' \<notin> set ''USER=alice'' \<or> before_first_eq ''USER=alice'' = []
        \<or> after_first_eq ''USER=alice'' = [])
   \<and> parse_secret_key_value_pair ''USER=alice'' = Inr (''USER'', ''alice'')
   \<and> parse_secret_key_value_pair ''USER='' = Inl (ValueError error_msg)"
proof -
  have h: "\<not> (CHR ''='' \<notin> set ''USER=alice'' \<or> before_first_eq ''USER=alice'' = []
        \<or> after_first_eq ''USER=alice'' = [])"
    by (simp add: before_first_eq_def after_first_eq_def)
  have v: "after_first_eq ''USER='' = []"
    by (simp add: after_first_eq_def)
  from parse_pair_contract [of "''USER=alice''"] h
  have "parse_secret_key_value_pair ''USER=alice''
          = Inr (before_first_eq ''USER=alice'', after_first_eq ''USER=alice'')"
    by blast
  then have p: "parse_secret_key_value_pair ''USER=alice'' = Inr (''USER'', ''alice'')"
    by (simp add: before_first_eq_def after_first_eq_def)
  from parse_pair_contract [of "''USER=''"] v
  have q: "parse_secret_key_value_pair ''USER='' = Inl (ValueError error_msg)"
    by blast
  show ?thesis using h p q by blast
qed

text \<open>
  C10. When \<open>_parse_secret_key_value_pair\<close> returns a pair, the key holds no \<open>=\<close>, key and
  value are not empty, and the key, an \<open>=\<close> and the value give the raw string back.
\<close>

theorem parse_pair_lossless:
  assumes "parse_secret_key_value_pair raw = Inr (key, val)"
  shows "CHR ''='' \<notin> set key \<and> key \<noteq> [] \<and> val \<noteq> [] \<and> key @ ''='' @ val = raw"
proof -
  from assms have present: "CHR ''='' \<in> set raw"
    and k: "key = before_first_eq raw" and v: "val = after_first_eq raw"
    and ne: "before_first_eq raw \<noteq> []" "after_first_eq raw \<noteq> []"
    by (auto simp: parse_pair_slices split: if_splits)
  show ?thesis
    using halves_rejoin [OF present] before_first_eq_clean [of raw] ne k v by simp
qed

theorem parse_pair_lossless_witness:
  "parse_secret_key_value_pair ''key=val=ue'' = Inr (''key'', ''val=ue'')
   \<and> CHR ''='' \<notin> set ''key'' \<and> ''key'' \<noteq> [] \<and> ''val=ue'' \<noteq> []
   \<and> ''key'' @ ''='' @ ''val=ue'' = ''key=val=ue''"
proof -
  have p: "parse_secret_key_value_pair ''key=val=ue'' = Inr (''key'', ''val=ue'')"
    by (simp add: parse_secret_key_value_pair_def str_find_def)
  show ?thesis using p parse_pair_lossless [OF p] by simp
qed

subsection \<open>A sequence of pairs\<close>

lemma well_formed_parse:
  "well_formed raw \<Longrightarrow> parse_secret_key_value_pair raw = Inr (split_pair raw)"
  by (simp add: well_formed_def split_pair_def parse_pair_slices split: if_splits)

lemma malformed_parse:
  "\<not> well_formed raw \<Longrightarrow> parse_secret_key_value_pair raw = Inl (ValueError error_msg)"
  by (simp add: well_formed_def parse_pair_slices split: if_splits)

lemma dict_of_pairs_prefix:
  "\<forall>raw\<in>set pre. well_formed raw \<Longrightarrow>
     dict_of_pairs (pre @ rest) d = dict_of_pairs rest (foldl insert_pair d (map split_pair pre))"
proof (induction pre arbitrary: d)
  case Nil
  then show ?case by simp
next
  case (Cons raw pre)
  then have "parse_secret_key_value_pair raw = Inr (split_pair raw)"
    by (simp add: well_formed_parse)
  with Cons show ?case
    by (simp add: insert_pair_def split_pair_def)
qed

lemma map_of_insert_pair: "map_of (insert_pair d p) = (map_of d)(fst p \<mapsto> snd p)"
  by (simp add: insert_pair_def update_conv')

lemma distinct_insert_pair: "distinct (map fst d) \<Longrightarrow> distinct (map fst (insert_pair d p))"
  by (simp add: insert_pair_def distinct_update)

lemma distinct_foldl_insert:
  "distinct (map fst d) \<Longrightarrow> distinct (map fst (foldl insert_pair d ps))"
  by (induction ps arbitrary: d) (simp_all add: distinct_insert_pair)

lemma map_of_foldl_insert_miss:
  "k \<notin> fst ` set ps \<Longrightarrow> map_of (foldl insert_pair d ps) k = map_of d k"
  by (induction ps arbitrary: d) (auto simp: map_of_insert_pair)

lemma map_of_foldl_insert_last:
  "k \<notin> fst ` set post \<Longrightarrow>
     map_of (foldl insert_pair d (pre @ (k, v) # post)) k = Some v"
  by (simp add: map_of_foldl_insert_miss map_of_insert_pair)

text \<open>
  C6. For a sequence of well-formed strings \<open>parse_cli_secrets_strings\<close> returns the
  dictionary built by inserting the parsed pairs in order, starting from the empty one.
  Its keys are distinct, no error is raised for a repeated key, and an entry that no later
  entry repeats the key of decides the value of its key: the last write wins. So
  \<open>a=1\<close>, \<open>b=2\<close>, \<open>a=3\<close> give \<open>{a: 3, b: 2}\<close>.
\<close>

theorem parse_mapping_last_write_wins:
  assumes "\<forall>raw\<in>set raws. well_formed raw"
  shows "parse_cli_secrets_strings raws = Inr (foldl insert_pair [] (map split_pair raws))
     \<and> distinct (map fst (foldl insert_pair [] (map split_pair raws)))
     \<and> (\<forall>pre raw post. raws = pre @ raw # post
            \<and> (\<forall>later\<in>set post. before_first_eq later \<noteq> before_first_eq raw)
          \<longrightarrow> map_of (foldl insert_pair [] (map split_pair raws)) (before_first_eq raw)
                = Some (after_first_eq raw))
     \<and> parse_cli_secrets_strings [''a=1'', ''b=2'', ''a=3''] = Inr [(''a'', ''3''), (''b'', ''2'')]"
proof -
  have a: "parse_cli_secrets_strings raws = Inr (foldl insert_pair [] (map split_pair raws))"
    using dict_of_pairs_prefix [OF assms, of "[]" "[]"]
    by (simp add: parse_cli_secrets_strings_def)
  have b: "distinct (map fst (foldl insert_pair [] (map split_pair raws)))"
    by (rule distinct_foldl_insert) simp
  have c: "map_of (foldl insert_pair [] (map split_pair raws)) (before_first_eq raw)
                = Some (after_first_eq raw)"
    if "raws = pre @ raw # post"
      and "\<forall>later\<in>set post. before_first_eq later \<noteq> before_first_eq raw"
    for pre raw post
  proof -
    from that(2) have "before_first_eq raw \<notin> fst ` set (map split_pair post)"
      by (auto simp: split_pair_def)
    from map_of_foldl_insert_last [OF this, of "[]" "map split_pair pre" "after_first_eq raw"]
    show ?thesis by (simp add: that(1) split_pair_def)
  qed
  have d: "parse_cli_secrets_strings [''a=1'', ''b=2'', ''a=3'']
             = Inr [(''a'', ''3''), (''b'', ''2'')]"
    by (simp add: parse_cli_secrets_strings_def parse_pair_slices before_first_eq_def
        after_first_eq_def)
  from a b c d show ?thesis by blast
qed

theorem parse_mapping_last_write_wins_witness:
  "well_formed ''a=1'' \<and> well_formed ''b=2'' \<and> well_formed ''a=3''
   \<and> parse_cli_secrets_strings [''a=1'', ''b=2'', ''a=3'']
       = Inr (foldl insert_pair [] (map split_pair [''a=1'', ''b=2'', ''a=3'']))
   \<and> parse_cli_secrets_strings [''a=1'', ''b=2'', ''a=3''] = Inr [(''a'', ''3''), (''b'', ''2'')]"
proof -
  have w: "well_formed ''a=1''" "well_formed ''b=2''" "well_formed ''a=3''"
    by (simp_all add: well_formed_def parse_pair_slices before_first_eq_def after_first_eq_def)
  then have h: "\<forall>raw\<in>set [''a=1'', ''b=2'', ''a=3'']. well_formed raw" by simp
  from parse_mapping_last_write_wins [OF h] w show ?thesis by blast
qed

lemma first_malformed_split:
  assumes "\<exists>raw\<in>set raws. \<not> well_formed raw"
  shows "raws = takeWhile well_formed raws @ first_malformed raws # tl (dropWhile well_formed raws)"
    and "\<not> well_formed (first_malformed raws)"
proof -
  from assms have ne: "dropWhile well_formed raws \<noteq> []" by auto
  then have "dropWhile well_formed raws
      = first_malformed raws # tl (dropWhile well_formed raws)"
    by (simp add: first_malformed_def)
  then show "raws = takeWhile well_formed raws @ first_malformed raws # tl (dropWhile well_formed raws)"
    by (metis takeWhile_dropWhile_id)
  from ne show "\<not> well_formed (first_malformed raws)"
    unfolding first_malformed_def by (rule hd_dropWhile)
qed

lemma dict_of_pairs_stops:
  assumes "\<forall>raw\<in>set pre. well_formed raw" and "parse_secret_key_value_pair bad = Inl e"
  shows "dict_of_pairs (pre @ bad # post) d = Inl e"
  using assms by (simp add: dict_of_pairs_prefix)

text \<open>
  C7. A sequence with a malformed entry splits into well-formed entries, the first
  malformed one and a rest. \<open>parse_cli_secrets_strings\<close> fails with the very error that
  \<open>_parse_secret_key_value_pair\<close> raises on that entry, the \<open>ValueError\<close> itself and nothing
  wrapped around it, and it does so whatever follows the entry: the rest is never looked at.
\<close>

theorem parse_mapping_fails_fast:
  assumes "\<exists>raw\<in>set raws. \<not> well_formed raw"
  shows "raws = takeWhile well_formed raws @ first_malformed raws # tl (dropWhile well_formed raws)
     \<and> (\<forall>raw\<in>set (takeWhile well_formed raws). well_formed raw)
     \<and> parse_secret_key_value_pair (first_malformed raws) = Inl (ValueError error_msg)
     \<and> parse_cli_secrets_strings raws = Inl (ValueError error_msg)
     \<and> (\<forall>rest. parse_cli_secrets_strings (takeWhile well_formed raws @ first_malformed raws # rest)
            = Inl (ValueError error_msg))"
proof -
  note split = first_malformed_split [OF assms]
  have pre: "\<forall>raw\<in>set (takeWhile well_formed raws). well_formed raw"
    by (auto dest: set_takeWhileD)
  have bad: "parse_secret_key_value_pair (first_malformed raws) = Inl (ValueError error_msg)"
    using split(2) by (rule malformed_parse)
  have every: "parse_cli_secrets_strings (takeWhile well_formed raws @ first_malformed raws # rest)
            = Inl (ValueError error_msg)" for rest
    unfolding parse_cli_secrets_strings_def using pre bad by (rule dict_of_pairs_stops)
  from every [of "tl (dropWhile well_formed raws)"] split(1)
  have "parse_cli_secrets_strings raws = Inl (ValueError error_msg)" by simp
  with split(1) pre bad every show ?thesis by blast
qed

theorem parse_mapping_fails_fast_witness:
  "(\<exists>raw\<in>set [''a=1'', ''b'', ''c=3'']. \<not> well_formed raw)
   \<and> first_malformed [''a=1'', ''b'', ''c=3''] = ''b''
   \<and> parse_cli_secrets_strings [''a=1'', ''b'', ''c=3''] = Inl (ValueError error_msg)"
proof -
  have wf: "well_formed ''a=1''" "\<not> well_formed ''b''"
    by (simp_all add: well_formed_def parse_pair_slices before_first_eq_def after_first_eq_def)
  then have h: "\<exists>raw\<in>set [''a=1'', ''b'', ''c=3'']. \<not> well_formed raw" by simp
  have f: "first_malformed [''a=1'', ''b'', ''c=3''] = ''b''"
    using wf by (simp add: first_malformed_def)
  from parse_mapping_fails_fast [OF h] h f show ?thesis by blast
qed

section \<open>Properties of the operations on secrets\<close>

lemmas call_defs = call_namespace_exists_def call_secret_exists_def call_list_secrets_def
  call_create_secret_def call_update_secret_def call_delete_secret_def stored_def logged_def
  print_def create_complete_secret_name_def

lemmas msg_defs = ns_missing_def secret_missing_def guidance_def cannot_find_def
  secret_created_def

lemmas demo_defs = cluster_k8s_def cluster_namespace_exists_def cluster_secret_exists_def
  cluster_list_secrets_def cluster_create_secret_def in_listing_def demo_world_def
  demo_cluster_def never_def

text \<open>
  C1. When the namespace does not exist, \<open>create_secret\<close> prints the namespace message and
  returns, and the only call it has made is the existence check: \<open>k8s.create_secret\<close> is
  never invoked. When the namespace exists, it invokes \<open>k8s.create_secret\<close> exactly once,
  on the identifier \<open>group-name\<close>, the group and the mapping: the store it leaves is the
  one that this call returns, followed by the created message, and an error of this call
  is raised as it is. An error of the existence check is raised before anything else
  happens.
\<close>

theorem create_calls_store:
  "(k8s_namespace_exists k (store w) namespace = Inl e \<longrightarrow>
      create_secret k namespace grp nm kv w =
        Raised e (w\<lparr>calls := calls w @ [NamespaceExists namespace]\<rparr>))
   \<and> (k8s_namespace_exists k (store w) namespace = Inr False \<longrightarrow>
      create_secret k namespace grp nm kv w =
        Returned (w\<lparr>calls := calls w @ [NamespaceExists namespace],
                    out := out w @ [ns_missing namespace]\<rparr>))
   \<and> (k8s_namespace_exists k (store w) namespace = Inr True
        \<and> k8s_create_secret k (store w) namespace (grp @ ''-'' @ nm) grp kv = Inr s \<longrightarrow>
      create_secret k namespace grp nm kv w =
        Returned (w\<lparr>store := s,
                    calls := calls w @ [NamespaceExists namespace,
                                        CreateSecret namespace (grp @ ''-'' @ nm) grp kv],
                    out := out w @ [secret_created nm grp]\<rparr>))
   \<and> (k8s_namespace_exists k (store w) namespace = Inr True
        \<and> k8s_create_secret k (store w) namespace (grp @ ''-'' @ nm) grp kv = Inl e \<longrightarrow>
      create_secret k namespace grp nm kv w =
        Raised e (w\<lparr>calls := calls w @ [NamespaceExists namespace,
                                        CreateSecret namespace (grp @ ''-'' @ nm) grp kv]\<rparr>))
   \<and> (k8s_namespace_exists k (store w) namespace = Inr True \<longrightarrow>
      calls (world_of (create_secret k namespace grp nm kv w)) =
        calls w @ [NamespaceExists namespace, CreateSecret namespace (grp @ ''-'' @ nm) grp kv])"
  by (simp add: create_secret_def call_defs msg_defs split: sum.splits)

text \<open>
  C2. \<open>update_secret\<close> and \<open>delete_secret\<close> check the namespace first: when it is missing
  they print the namespace message and the secret is never asked for. When the namespace
  exists they ask for the secret under the identifier \<open>group-name\<close>, and when it is
  missing they print the secret message and return: the two existence checks, in this
  order, are all the calls they have made, so nothing is updated or deleted.
\<close>

theorem update_delete_guarded:
  "(k8s_namespace_exists k (store w) namespace = Inr False \<longrightarrow>
      update_secret k namespace grp nm kv w =
        Returned (w\<lparr>calls := calls w @ [NamespaceExists namespace],
                    out := out w @ [ns_missing namespace]\<rparr>)
      \<and> delete_secret k namespace grp nm w =
        Returned (w\<lparr>calls := calls w @ [NamespaceExists namespace],
                    out := out w @ [ns_missing namespace]\<rparr>))
   \<and> (k8s_namespace_exists k (store w) namespace = Inr True
        \<and> k8s_secret_exists k (store w) namespace (grp @ ''-'' @ nm) = Inr False \<longrightarrow>
      update_secret k namespace grp nm kv w =
        Returned (w\<lparr>calls := calls w @ [NamespaceExists namespace,
                                          SecretExists namespace (grp @ ''-'' @ nm)],
                    out := out w @ [secret_missing nm grp]\<rparr>)
      \<and> delete_secret k namespace grp nm w =
        Returned (w\<lparr>calls := calls w @ [NamespaceExists namespace,
                                          SecretExists namespace (grp @ ''-'' @ nm)],
                    out := out w @ [secret_missing nm grp]\<rparr>))"
  by (simp add: update_secret_def delete_secret_def call_defs msg_defs)

lemma demo_prod: "k8s_namespace_exists (cluster_k8s never) (store demo_world) ''prod'' = Inr True"
  by (simp add: cluster_k8s_def cluster_namespace_exists_def demo_world_def demo_cluster_def)

lemma demo_test: "k8s_namespace_exists (cluster_k8s never) (store demo_world) ''test'' = Inr False"
  by (simp add: cluster_k8s_def cluster_namespace_exists_def demo_world_def demo_cluster_def)

lemma demo_no_secret:
  "k8s_secret_exists (cluster_k8s never) (store demo_world) ''prod'' (''dev'' @ ''-'' @ ''cache'')
     = Inr False"
  by (simp add: cluster_k8s_def cluster_secret_exists_def demo_world_def demo_cluster_def)

lemma demo_prod_always:
  "k8s_namespace_exists (cluster_k8s always) (store demo_world) ''prod'' = Inr True"
  by (simp add: cluster_k8s_def cluster_namespace_exists_def demo_world_def demo_cluster_def)

lemma demo_created:
  "k8s_create_secret (cluster_k8s never) (store demo_world) ''prod'' (''dev'' @ ''-'' @ ''db'')
      ''dev'' [(''K'', ''V'')]
     = Inr (demo_cluster\<lparr>secrets := [((''prod'', ''dev-db''),
               \<lparr>name = ''dev-db'', group = ''dev'', data = [(''K'', ''V'')]\<rparr>)]\<rparr>)"
  by (simp add: demo_defs)

lemma demo_rejected:
  "k8s_create_secret (cluster_k8s always) (store demo_world) ''prod'' (''dev'' @ ''-'' @ ''db'')
      ''dev'' [(''K'', ''V'')]
     = Inl (StoreError ''creation rejected'')"
  by (simp add: demo_defs always_def)

theorem create_calls_store_witness:
  "k8s_namespace_exists (cluster_k8s never) (store demo_world) ''test'' = Inr False
   \<and> create_secret (cluster_k8s never) ''test'' ''dev'' ''db'' [(''K'', ''V'')] demo_world =
        Returned (demo_world\<lparr>calls := [NamespaceExists ''test''],
                    out := [ns_missing ''test'']\<rparr>)
   \<and> k8s_namespace_exists (cluster_k8s never) (store demo_world) ''prod'' = Inr True
   \<and> k8s_create_secret (cluster_k8s never) (store demo_world) ''prod'' (''dev'' @ ''-'' @ ''db'')
        ''dev'' [(''K'', ''V'')]
       = Inr (demo_cluster\<lparr>secrets := [((''prod'', ''dev-db''),
               \<lparr>name = ''dev-db'', group = ''dev'', data = [(''K'', ''V'')]\<rparr>)]\<rparr>)
   \<and> create_secret (cluster_k8s never) ''prod'' ''dev'' ''db'' [(''K'', ''V'')] demo_world =
        Returned (demo_world\<lparr>store := demo_cluster\<lparr>secrets := [((''prod'', ''dev-db''),
               \<lparr>name = ''dev-db'', group = ''dev'', data = [(''K'', ''V'')]\<rparr>)]\<rparr>,
             calls := [NamespaceExists ''prod'',
                       CreateSecret ''prod'' ''dev-db'' ''dev'' [(''K'', ''V'')]],
             out := [secret_created ''db'' ''dev'']\<rparr>)
   \<and> k8s_namespace_exists (cluster_k8s always) (store demo_world) ''prod'' = Inr True
   \<and> k8s_create_secret (cluster_k8s always) (store demo_world) ''prod'' (''dev'' @ ''-'' @ ''db'')
        ''dev'' [(''K'', ''V'')]
       = Inl (StoreError ''creation rejected'')
   \<and> create_secret (cluster_k8s always) ''prod'' ''dev'' ''db'' [(''K'', ''V'')] demo_world =
        Raised (StoreError ''creation rejected'')
          (demo_world\<lparr>calls := [NamespaceExists ''prod'',
                       CreateSecret ''prod'' ''dev-db'' ''dev'' [(''K'', ''V'')]]\<rparr>)"
proof -
  have c: "calls demo_world = []" "out demo_world = []" by (simp_all add: demo_world_def)
  note a = create_calls_store [where k = "cluster_k8s never" and w = demo_world
      and namespace = "''test''" and grp = "''dev''" and nm = "''db''" and kv = "[(''K'', ''V'')]",
      THEN conjunct2, THEN conjunct1, rule_format, OF demo_test]
  note b = create_calls_store [where k = "cluster_k8s never" and w = demo_world
      and namespace = "''prod''" and grp = "''dev''" and nm = "''db''" and kv = "[(''K'', ''V'')]",
      THEN conjunct2, THEN conjunct2, THEN conjunct1, rule_format,
      OF conjI [OF demo_prod demo_created]]
  note r = create_calls_store [where k = "cluster_k8s always" and w = demo_world
      and namespace = "''prod''" and grp = "''dev''" and nm = "''db''" and kv = "[(''K'', ''V'')]",
      THEN conjunct2, THEN conjunct2, THEN conjunct2, THEN conjunct1, rule_format,
      OF conjI [OF demo_prod_always demo_rejected]]
  from a b r c demo_test demo_prod demo_created demo_prod_always demo_rejected
  show ?thesis by simp
qed

theorem update_delete_guarded_witness:
  "k8s_namespace_exists (cluster_k8s never) (store demo_world) ''prod'' = Inr True
   \<and> k8s_secret_exists (cluster_k8s never) (store demo_world) ''prod'' (''dev'' @ ''-'' @ ''cache'')
       = Inr False
   \<and> update_secret (cluster_k8s never) ''prod'' ''dev'' ''cache'' [(''K'', ''V'')] demo_world =
        Returned (demo_world\<lparr>calls := [NamespaceExists ''prod'', SecretExists ''prod'' ''dev-cache''],
                    out := [secret_missing ''cache'' ''dev'']\<rparr>)
   \<and> delete_secret (cluster_k8s never) ''prod'' ''dev'' ''cache'' demo_world =
        Returned (demo_world\<lparr>calls := [NamespaceExists ''prod'', SecretExists ''prod'' ''dev-cache''],
                    out := [secret_missing ''cache'' ''dev'']\<rparr>)"
proof -
  have c: "calls demo_world = []" "out demo_world = []" by (simp_all add: demo_world_def)
  from update_delete_guarded [of "cluster_k8s never" demo_world "''prod''" "''dev''" "''cache''" "[(''K'', ''V'')]"]
    demo_prod demo_no_secret c
  show ?thesis by simp
qed


lemma print_data_effect:
  "print_data d w = w\<lparr>out := out w @ data_lines d\<rparr>"
  by (induction d arbitrary: w) (auto simp: data_lines_def print_def)

lemma print_secrets_effect:
  "print_secrets l w = w\<lparr>out := out w @ concat (map secret_lines l)\<rparr>"
  by (induction l arbitrary: w)
     (auto simp: secret_lines_def print_def print_data_effect)

lemma pair_line_form:
  "pair_line key val = ''-> '' @ str_remove newline key @ ''='' @ str_remove newline val"
  by (simp add: pair_line_def str_remove_def newline_def)

lemma pair_line_single: "newline \<notin> set (pair_line key val)"
  by (simp add: pair_line_def str_remove_def)

lemma str_remove_none: "c \<notin> set s \<Longrightarrow> str_remove c s = s"
  by (auto simp: str_remove_def filter_id_conv)

text \<open>
  C3, as stated, fails. A request for a name without a group is only refused when the name
  is not empty: with the empty name \<open>display_secrets\<close> lists the secrets, looks up
  \<open>None-\<close> and, where the store holds it, prints that secret's payload and no guidance.
  And for a named secret that the listing does not hold, the cannot-find message is not
  all that is printed: the header line comes before it.
\<close>

theorem not_found_returns_counterexample:
  "out (world_of (display_secrets (cluster_k8s never) ''prod'' None (Some []) none_world))
     = [secret_header [], ''-> PW=hunter2'']
   \<and> guidance \<notin> set (out (world_of
         (display_secrets (cluster_k8s never) ''prod'' None (Some []) none_world)))
   \<and> calls (world_of (display_secrets (cluster_k8s never) ''prod'' None (Some []) none_world))
     = [NamespaceExists ''prod'', ListSecrets ''prod'' None]
   \<and> out (world_of (display_secrets (cluster_k8s never) ''prod'' (Some ''dev'') (Some ''cache'')
         demo_world))
     = [secret_header ''cache'', cannot_find ''cache'' ''prod'']
   \<and> out (world_of (display_secrets (cluster_k8s never) ''prod'' (Some ''dev'') (Some ''cache'')
         demo_world))
     \<noteq> [cannot_find ''cache'' ''prod'']"
  by (simp add: display_secrets_def dict_getitem_def call_defs demo_defs none_world_def
      none_cluster_def msg_defs secret_header_def pair_line_def str_remove_def newline_def)

text \<open>
  C3, amended. Every not-found condition ends in a normal return, with nothing raised, the
  store untouched, no mutating call made, and only messages printed: a missing namespace
  in \<open>create_secret\<close>, \<open>update_secret\<close>, \<open>delete_secret\<close> and \<open>display_secrets\<close>; a missing
  secret in \<open>update_secret\<close> and \<open>delete_secret\<close>; a non-empty name without a group in
  \<open>display_secrets\<close>; and a named secret that the listing does not hold, where the
  \<open>KeyError\<close> of the lookup is caught and the cannot-find message follows the header line
  that was printed before the lookup. The parser has no not-found condition.
\<close>

theorem not_found_returns:
  "(k8s_namespace_exists k (store w) namespace = Inr False \<longrightarrow>
      quiet_return w [ns_missing namespace] (create_secret k namespace grp nm kv w)
      \<and> quiet_return w [ns_missing namespace] (update_secret k namespace grp nm kv w)
      \<and> quiet_return w [ns_missing namespace] (delete_secret k namespace grp nm w)
      \<and> quiet_return w [ns_missing namespace] (display_secrets k namespace og on w))
   \<and> (k8s_namespace_exists k (store w) namespace = Inr True
        \<and> k8s_secret_exists k (store w) namespace (grp @ ''-'' @ nm) = Inr False \<longrightarrow>
      quiet_return w [secret_missing nm grp] (update_secret k namespace grp nm kv w)
      \<and> quiet_return w [secret_missing nm grp] (delete_secret k namespace grp nm w))
   \<and> (k8s_namespace_exists k (store w) namespace = Inr True \<and> truthy on \<and> og = None \<longrightarrow>
      quiet_return w [guidance] (display_secrets k namespace og on w))
   \<and> (k8s_namespace_exists k (store w) namespace = Inr True
        \<and> \<not> (truthy (Some nm) \<and> og = None)
        \<and> k8s_list_secrets k (store w) namespace og = Inr listing
        \<and> map_of listing (fstr og @ ''-'' @ nm) = None \<longrightarrow>
      quiet_return w [secret_header nm, cannot_find nm namespace]
        (display_secrets k namespace og (Some nm) w))"
  by (simp add: quiet_return_def create_secret_def update_secret_def delete_secret_def
      display_secrets_def dict_getitem_def call_defs msg_defs)

theorem not_found_returns_witness:
  "k8s_namespace_exists (cluster_k8s never) (store demo_world) ''test'' = Inr False
   \<and> quiet_return demo_world [ns_missing ''test'']
        (create_secret (cluster_k8s never) ''test'' ''dev'' ''db'' [(''K'', ''V'')] demo_world)
   \<and> k8s_namespace_exists (cluster_k8s never) (store demo_world) ''prod'' = Inr True
   \<and> k8s_secret_exists (cluster_k8s never) (store demo_world) ''prod'' (''dev'' @ ''-'' @ ''cache'')
       = Inr False
   \<and> quiet_return demo_world [secret_missing ''cache'' ''dev'']
        (delete_secret (cluster_k8s never) ''prod'' ''dev'' ''cache'' demo_world)
   \<and> truthy (Some ''db'')
   \<and> quiet_return demo_world [guidance]
        (display_secrets (cluster_k8s never) ''prod'' None (Some ''db'') demo_world)
   \<and> \<not> (truthy (Some ''cache'') \<and> Some ''dev'' = None)
   \<and> k8s_list_secrets (cluster_k8s never) (store demo_world) ''prod'' (Some ''dev'')
        = Inr [(''dev-db'', \<lparr>name = ''dev-db'', group = ''dev'',
                   data = [(''USER'', ''alice''), (''KEY'', [CHR ''a'', newline, CHR ''b''])]\<rparr>)]
   \<and> quiet_return demo_world [secret_header ''cache'', cannot_find ''cache'' ''prod'']
        (display_secrets (cluster_k8s never) ''prod'' (Some ''dev'') (Some ''cache'') demo_world)"
proof -
  let ?listing = "[(''dev-db'', \<lparr>name = ''dev-db'', group = ''dev'',
                   data = [(''USER'', ''alice''), (''KEY'', [CHR ''a'', newline, CHR ''b''])]\<rparr>)]"
  have l: "k8s_list_secrets (cluster_k8s never) (store demo_world) ''prod'' (Some ''dev'')
        = Inr ?listing"
    by (simp add: cluster_k8s_def cluster_list_secrets_def in_listing_def demo_world_def
        demo_cluster_def)
  have m: "map_of ?listing (fstr (Some ''dev'') @ ''-'' @ ''cache'') = None" by simp
  have t: "truthy (Some ''db'')" "\<not> (truthy (Some ''cache'') \<and> Some ''dev'' = None)" by simp_all
  note a = not_found_returns [where k = "cluster_k8s never" and w = demo_world
      and namespace = "''test''" and grp = "''dev''" and nm = "''db''" and kv = "[(''K'', ''V'')]",
      THEN conjunct1, rule_format, OF demo_test]
  note b = not_found_returns [where k = "cluster_k8s never" and w = demo_world
      and namespace = "''prod''" and grp = "''dev''" and nm = "''cache''",
      THEN conjunct2, THEN conjunct1, rule_format, OF conjI [OF demo_prod demo_no_secret]]
  note c = not_found_returns [where k = "cluster_k8s never" and w = demo_world
      and namespace = "''prod''" and og = None and on = "Some ''db''",
      THEN conjunct2, THEN conjunct2, THEN conjunct1, rule_format,
      OF conjI [OF demo_prod conjI [OF t(1) refl]]]
  note d = not_found_returns [where k = "cluster_k8s never" and w = demo_world
      and namespace = "''prod''" and og = "Some ''dev''" and nm = "''cache''"
      and listing = ?listing,
      THEN conjunct2, THEN conjunct2, THEN conjunct2, rule_format,
      OF conjI [OF demo_prod conjI [OF t(2) conjI [OF l m]]]]
  from a b c d demo_test demo_prod demo_no_secret t l show ?thesis by blast
qed


text \<open>
  C4, as stated, fails. \<open>display_secrets\<close> always asks the store whether the namespace
  exists, so a call with a name and no group does query the store. With the empty string
  as the name, the test \<open>secret_name and group is None\<close> is false and the secrets are
  listed; in a namespace that does not exist the namespace message is printed, not the
  guidance.
\<close>

theorem display_without_group_counterexample:
  "\<not> no_store_query demo_world
        (display_secrets (cluster_k8s never) ''prod'' None (Some ''db'') demo_world)
   \<and> ListSecrets ''prod'' None
        \<in> set (calls (world_of (display_secrets (cluster_k8s never) ''prod'' None (Some []) demo_world)))
   \<and> guidance
        \<notin> set (out (world_of (display_secrets (cluster_k8s never) ''prod'' None (Some []) demo_world)))
   \<and> guidance
        \<notin> set (out (world_of (display_secrets (cluster_k8s never) ''test'' None (Some ''db'') demo_world)))"
  by (simp add: no_store_query_def display_secrets_def dict_getitem_def call_defs demo_defs
      msg_defs secret_header_def)

text \<open>
  C4, amended. In a namespace that exists, \<open>display_secrets\<close> with a non-empty secret name
  and no group prints the guidance message and returns; the existence check of the
  namespace is the only call it makes, so the secrets are never listed.
\<close>

theorem display_without_group:
  assumes "k8s_namespace_exists k (store w) namespace = Inr True" and "nm \<noteq> []"
  shows "display_secrets k namespace None (Some nm) w =
           Returned (w\<lparr>calls := calls w @ [NamespaceExists namespace],
                       out := out w @ [guidance]\<rparr>)"
  using assms by (simp add: display_secrets_def call_defs msg_defs)

theorem display_without_group_witness:
  "k8s_namespace_exists (cluster_k8s never) (store demo_world) ''prod'' = Inr True
   \<and> ''db'' \<noteq> []
   \<and> display_secrets (cluster_k8s never) ''prod'' None (Some ''db'') demo_world =
        Returned (demo_world\<lparr>calls := [NamespaceExists ''prod''], out := [guidance]\<rparr>)"
proof -
  have n: "''db'' \<noteq> []" by simp
  have c: "calls demo_world = []" "out demo_world = []" by (simp_all add: demo_world_def)
  from display_without_group [OF demo_prod n] demo_prod n c show ?thesis by simp
qed

text \<open>
  C8. What \<open>display_secrets\<close> prints for a secret is its header and then one line per
  key/value pair of its data, both for one named secret and for a whole listing. The
  line of a pair is \<open>-> key=value\<close> with every newline character of the key and of the
  value removed, so no line of a secret's data holds a newline.
\<close>

theorem display_strips_newlines:
  assumes "k8s_namespace_exists k (store w) namespace = Inr True"
    and "k8s_list_secrets k (store w) namespace og = Inr listing"
  shows "(\<forall>nm s. \<not> (truthy (Some nm) \<and> og = None)
              \<and> map_of listing (fstr og @ ''-'' @ nm) = Some s \<longrightarrow>
            out (world_of (display_secrets k namespace og (Some nm) w))
              = out w @ secret_header nm # data_lines (data s))
     \<and> out (world_of (display_secrets k namespace og None w))
          = out w @ concat (map secret_lines listing)
     \<and> (\<forall>d key val. (key, val) \<in> set d \<longrightarrow>
            ''-> '' @ str_remove newline key @ ''='' @ str_remove newline val \<in> set (data_lines d))
     \<and> (\<forall>d. \<forall>line\<in>set (data_lines d). newline \<notin> set line)"
proof -
  have a: "out (world_of (display_secrets k namespace og (Some nm) w))
              = out w @ secret_header nm # data_lines (data s)"
    if "\<not> (truthy (Some nm) \<and> og = None)" "map_of listing (fstr og @ ''-'' @ nm) = Some s"
    for nm s
    using assms that
    by (auto simp: display_secrets_def dict_getitem_def call_defs print_data_effect)
  have b: "out (world_of (display_secrets k namespace og None w))
          = out w @ concat (map secret_lines listing)"
    using assms
    by (simp add: display_secrets_def call_defs print_secrets_effect)
  have c: "''-> '' @ str_remove newline key @ ''='' @ str_remove newline val \<in> set (data_lines d)"
    if "(key, val) \<in> set d" for d key val
  proof -
    from that have "pair_line key val \<in> set (data_lines d)"
      unfolding data_lines_def by force
    then show ?thesis by (simp add: pair_line_form)
  qed
  have d: "\<forall>line\<in>set (data_lines d). newline \<notin> set line" for d
    by (auto simp: data_lines_def pair_line_single)
  from a b c d show ?thesis by blast
qed


theorem display_strips_newlines_witness:
  "k8s_namespace_exists (cluster_k8s never) (store demo_world) ''prod'' = Inr True
   \<and> k8s_list_secrets (cluster_k8s never) (store demo_world) ''prod'' (Some ''dev'')
        = Inr [(''dev-db'', \<lparr>name = ''dev-db'', group = ''dev'',
                   data = [(''USER'', ''alice''), (''KEY'', [CHR ''a'', newline, CHR ''b''])]\<rparr>)]
   \<and> out (world_of (display_secrets (cluster_k8s never) ''prod'' (Some ''dev'') (Some ''db'')
          demo_world))
       = [secret_header ''db'', ''-> USER=alice'', ''-> KEY=ab'']"
proof -
  let ?s = "\<lparr>name = ''dev-db'', group = ''dev'',
             data = [(''USER'', ''alice''), (''KEY'', [CHR ''a'', newline, CHR ''b''])]\<rparr>"
  have l: "k8s_list_secrets (cluster_k8s never) (store demo_world) ''prod'' (Some ''dev'')
        = Inr [(''dev-db'', ?s)]"
    by (simp add: demo_defs)
  have m: "\<not> (truthy (Some ''db'') \<and> Some ''dev'' = None)
      \<and> map_of [(''dev-db'', ?s)] (fstr (Some ''dev'') @ ''-'' @ ''db'') = Some ?s"
    by simp
  have o: "out demo_world = []" by (simp add: demo_world_def)
  have d: "data_lines (data ?s) = [''-> USER=alice'', ''-> KEY=ab'']"
    by (simp add: data_lines_def pair_line_def str_remove_def newline_def)
  from display_strips_newlines [OF demo_prod l, THEN conjunct1, rule_format, OF m]
  have "out (world_of (display_secrets (cluster_k8s never) ''prod'' (Some ''dev'') (Some ''db'')
          demo_world)) = out demo_world @ secret_header ''db'' # data_lines (data ?s)" .
  with o d demo_prod l show ?thesis by simp
qed

lemma listing_after_update:
  "group s = g \<Longrightarrow>
     map_of (map (\<lambda>e. (snd (fst e), snd e))
        (filter (in_listing ns (Some g)) (AList.update (ns, i) s al))) i = Some s"
  by (induction al) (auto simp: in_listing_def)

lemma surfacesI: "line \<in> set output \<Longrightarrow> sublist txt line \<Longrightarrow> surfaces txt output"
  by (auto simp: surfaces_def list_ex_iff)

text \<open>
  C9, amended. On the store of the specification, in a namespace that exists and for a
  creation that the store does not reject, \<open>create_secret\<close> returns after one
  \<open>k8s.create_secret\<close> under the identifier \<open>group-name\<close>, and \<open>display_secrets\<close> for the same
  group and name then finds the secret under the same identifier and prints its header and
  one line per pair. Every pair of the payload surfaces as \<open>K=V\<close> with the newline
  characters of \<open>K\<close> and \<open>V\<close> removed, hence as \<open>K=V\<close> itself when neither holds a newline.
\<close>

theorem create_then_display:
  assumes "namespace \<in> set (namespaces (store w))"
    and "\<not> rejected (store w) namespace (grp @ ''-'' @ nm)"
  shows "\<exists>w1 w2. create_secret (cluster_k8s rejected) namespace grp nm kv w = Returned w1
     \<and> calls w1 = calls w @ [NamespaceExists namespace,
                              CreateSecret namespace (grp @ ''-'' @ nm) grp kv]
     \<and> display_secrets (cluster_k8s rejected) namespace (Some grp) (Some nm) w1 = Returned w2
     \<and> calls w2 = calls w1 @ [NamespaceExists namespace, ListSecrets namespace (Some grp)]
     \<and> out w2 = out w1 @ secret_header nm # data_lines kv
     \<and> (\<forall>key val. (key, val) \<in> set kv \<longrightarrow>
           surfaces (str_remove newline key @ ''='' @ str_remove newline val) (out w2))
     \<and> (\<forall>key val. (key, val) \<in> set kv \<and> newline \<notin> set key \<and> newline \<notin> set val \<longrightarrow>
           surfaces (key @ ''='' @ val) (out w2))"
proof -
  let ?k = "cluster_k8s rejected"
  let ?i = "grp @ ''-'' @ nm"
  let ?s = "\<lparr>name = ?i, group = grp, data = kv\<rparr>"
  let ?c = "(store w)\<lparr>secrets := AList.update (namespace, ?i) ?s (secrets (store w))\<rparr>"
  let ?w1 = "w\<lparr>store := ?c,
               calls := calls w @ [NamespaceExists namespace, CreateSecret namespace ?i grp kv],
               out := out w @ [''secret='' @ nm @ '' created in group='' @ grp]\<rparr>"
  let ?w2 = "?w1\<lparr>calls := calls ?w1 @ [NamespaceExists namespace, ListSecrets namespace (Some grp)],
                 out := out ?w1 @ secret_header nm # data_lines kv\<rparr>"
  have c: "create_secret ?k namespace grp nm kv w = Returned ?w1"
    using assms
    by (simp add: create_secret_def call_defs cluster_k8s_def cluster_namespace_exists_def
        cluster_create_secret_def)
  have look: "map_of (map (\<lambda>e. (snd (fst e), snd e))
        (filter (in_listing namespace (Some grp)) (AList.update (namespace, ?i) ?s
           (secrets (store w))))) ?i = Some ?s"
    by (rule listing_after_update) simp
  have d: "display_secrets ?k namespace (Some grp) (Some nm) ?w1 = Returned ?w2"
    using assms(1) look
    by (simp add: display_secrets_def dict_getitem_def call_defs cluster_k8s_def
        cluster_namespace_exists_def cluster_list_secrets_def print_data_effect)
  have e: "surfaces (str_remove newline key @ ''='' @ str_remove newline val) (out ?w2)"
    if "(key, val) \<in> set kv" for key val
  proof -
    from that have "pair_line key val \<in> set (data_lines kv)"
      unfolding data_lines_def by force
    then have "pair_line key val \<in> set (out ?w2)" by simp
    moreover have "sublist (str_remove newline key @ ''='' @ str_remove newline val)
        (pair_line key val)"
      unfolding pair_line_form by (rule sublist_append_leftI)
    ultimately show ?thesis by (rule surfacesI)
  qed
  have f: "surfaces (key @ ''='' @ val) (out ?w2)"
    if "(key, val) \<in> set kv \<and> newline \<notin> set key \<and> newline \<notin> set val" for key val
    using e [of key val] that by (simp add: str_remove_none)
  have "create_secret ?k namespace grp nm kv w = Returned ?w1
     \<and> calls ?w1 = calls w @ [NamespaceExists namespace, CreateSecret namespace ?i grp kv]
     \<and> display_secrets ?k namespace (Some grp) (Some nm) ?w1 = Returned ?w2
     \<and> calls ?w2 = calls ?w1 @ [NamespaceExists namespace, ListSecrets namespace (Some grp)]
     \<and> out ?w2 = out ?w1 @ secret_header nm # data_lines kv
     \<and> (\<forall>key val. (key, val) \<in> set kv \<longrightarrow>
           surfaces (str_remove newline key @ ''='' @ str_remove newline val) (out ?w2))
     \<and> (\<forall>key val. (key, val) \<in> set kv \<and> newline \<notin> set key \<and> newline \<notin> set val \<longrightarrow>
           surfaces (key @ ''='' @ val) (out ?w2))"
    using c d e f by simp
  then show ?thesis by blast
qed

text \<open>
  C9, as stated, fails for a value that holds a newline: \<open>create_secret\<close> succeeds, and the
  \<open>display_secrets\<close> that follows prints the pair with the newline removed, so the text
  \<open>K=V\<close> itself is in no line of the output.
\<close>

theorem create_then_display_counterexample:
  "returned (create_secret (cluster_k8s never) ''prod'' ''g'' ''n''
       [(''K'', [CHR ''a'', newline, CHR ''b''])] demo_world)
   \<and> CreateSecret ''prod'' ''g-n'' ''g'' [(''K'', [CHR ''a'', newline, CHR ''b''])]
       \<in> set (calls (world_of (create_secret (cluster_k8s never) ''prod'' ''g'' ''n''
            [(''K'', [CHR ''a'', newline, CHR ''b''])] demo_world)))
   \<and> \<not> surfaces (''K'' @ ''='' @ [CHR ''a'', newline, CHR ''b''])
        (out (world_of (display_secrets (cluster_k8s never) ''prod'' (Some ''g'') (Some ''n'')
          (world_of (create_secret (cluster_k8s never) ''prod'' ''g'' ''n''
             [(''K'', [CHR ''a'', newline, CHR ''b''])] demo_world)))))"
  by (simp add: create_secret_def display_secrets_def dict_getitem_def call_defs demo_defs
      surfaces_def secret_header_def pair_line_def str_remove_def newline_def
      sublist_Cons_right)


theorem create_then_display_witness:
  "''prod'' \<in> set (namespaces (store demo_world))
   \<and> \<not> never (store demo_world) ''prod'' (''g'' @ ''-'' @ ''n'')
   \<and> (\<exists>w1 w2. create_secret (cluster_k8s never) ''prod'' ''g'' ''n'' [(''K'', ''V'')] demo_world
                   = Returned w1
         \<and> display_secrets (cluster_k8s never) ''prod'' (Some ''g'') (Some ''n'') w1 = Returned w2
         \<and> surfaces ''K=V'' (out w2))"
proof -
  have h1: "''prod'' \<in> set (namespaces (store demo_world))"
    by (simp add: demo_world_def demo_cluster_def)
  have h2: "\<not> never (store demo_world) ''prod'' (''g'' @ ''-'' @ ''n'')"
    by (simp add: never_def)
  have p: "(''K'', ''V'') \<in> set [(''K'', ''V'')] \<and> newline \<notin> set ''K'' \<and> newline \<notin> set ''V''"
    by (simp add: newline_def)
  from create_then_display [where namespace = "''prod''" and w = demo_world and rejected = never
      and grp = "''g''" and nm = "''n''" and kv = "[(''K'', ''V'')]", OF h1 h2]
  obtain w1 w2 where
    "create_secret (cluster_k8s never) ''prod'' ''g'' ''n'' [(''K'', ''V'')] demo_world = Returned w1"
    "display_secrets (cluster_k8s never) ''prod'' (Some ''g'') (Some ''n'') w1 = Returned w2"
    "\<forall>key val. (key, val) \<in> set [(''K'', ''V'')] \<and> newline \<notin> set key \<and> newline \<notin> set val \<longrightarrow>
           surfaces (key @ ''='' @ val) (out w2)"
    by blast
  moreover from this(3) p have "surfaces (''K'' @ ''='' @ ''V'') (out w2)" by blast
  then have "surfaces ''K=V'' (out w2)" by simp
  ultimately show ?thesis using h1 h2 by blast
qed

end
